theory Spec2Isabelle
  imports Complex_Main
begin

section \<open>Python values used by basic_agents.py\<close>

text \<open>
  A Python \<^verbatim>\<open>str\<close> is a sequence of Unicode code points; a code point is a natural
  number. \<open>lit\<close> turns an ASCII literal of the source into such a sequence.
\<close>

type_synonym py_str = "nat list"

definition lit :: "string \<Rightarrow> py_str" where
  "lit s = map of_char s"

text \<open>A text between two apostrophes (U+0027), as exception messages quote names.\<close>

definition quoted :: "py_str \<Rightarrow> py_str" where
  "quoted s = [39] @ s @ [39]"

text \<open>
  \<^verbatim>\<open>str.isspace\<close> on one code point: the characters that \<^verbatim>\<open>str.strip()\<close>, called with
  no argument, removes. These are U+0009..U+000D, U+001C..U+0020, U+0085, U+00A0, U+1680,
  U+2000..U+200A, U+2028, U+2029, U+202F, U+205F and U+3000.
\<close>

definition py_isspace :: "nat \<Rightarrow> bool" where
  "py_isspace c \<longleftrightarrow>
     (9 \<le> c \<and> c \<le> 13) \<or> (28 \<le> c \<and> c \<le> 32) \<or> c = 133 \<or> c = 160 \<or> c = 5760 \<or>
     (8192 \<le> c \<and> c \<le> 8202) \<or> c = 8232 \<or> c = 8233 \<or> c = 8239 \<or> c = 8287 \<or> c = 12288"

text \<open>\<^verbatim>\<open>s.strip()\<close>: leading and trailing whitespace removed.\<close>

definition py_strip :: "py_str \<Rightarrow> py_str" where
  "py_strip s = rev (dropWhile py_isspace (rev (dropWhile py_isspace s)))"

text \<open>
  \<^verbatim>\<open>not v\<close> for a value that is \<^verbatim>\<open>None\<close> or a \<^verbatim>\<open>str\<close> (what \<^verbatim>\<open>os.getenv\<close> returns):
  \<^verbatim>\<open>None\<close> and the empty string are falsy.
\<close>

fun py_not :: "py_str option \<Rightarrow> bool" where
  "py_not None = True"
| "py_not (Some s) = (s = [])"

subsection \<open>Exceptions\<close>

text \<open>
  The exception classes the module can meet. \<open>OtherException\<close> stands for any other class
  derived from \<^verbatim>\<open>Exception\<close> (a network or API failure of the client library, say);
  \<open>KeyboardInterrupt\<close>, \<open>SystemExit\<close>, \<open>GeneratorExit\<close> and \<open>OtherBaseException\<close> derive
  from \<^verbatim>\<open>BaseException\<close> only. An exception value carries its class and what
  \<^verbatim>\<open>str(e)\<close> does: it returns a text (\<open>Inr\<close>), or, when the \<^verbatim>\<open>__str__\<close> of the class
  raises, it raises an exception of its own (\<open>Inl\<close>).
\<close>

datatype exc_class =
    ValueError | EOFError | IndexError | KeyError | AttributeError | UnicodeEncodeError
  | OtherException string
  | KeyboardInterrupt | SystemExit | GeneratorExit
  | OtherBaseException string

datatype py_exception = PyExc (class_of: exc_class) (str_of: "py_exception + py_str")

fun issubclass_Exception :: "exc_class \<Rightarrow> bool" where
  "issubclass_Exception KeyboardInterrupt = False"
| "issubclass_Exception SystemExit = False"
| "issubclass_Exception GeneratorExit = False"
| "issubclass_Exception (OtherBaseException _) = False"
| "issubclass_Exception _ = True"

text \<open>A computation either raises (\<open>Inl\<close>) or returns (\<open>Inr\<close>).\<close>

type_synonym 'a result = "py_exception + 'a"

section \<open>The external libraries\<close>

text \<open>
  The OpenAI client, and the chat-completion request and response as far as the module
  touches them. A response holds its choices, each the \<^verbatim>\<open>message.content\<close> of the
  choice, which is a \<^verbatim>\<open>str\<close> or \<^verbatim>\<open>None\<close>.
\<close>

record openai_client =
  base_url :: py_str

record chat_request =
  req_model :: py_str
  req_messages :: "(py_str \<times> py_str) list"
  req_n :: nat
  req_stop :: "py_str option"
  req_temperature :: rat

record chat_completion =
  choices :: "py_str option list"

text \<open>
  The objects of the transformers library are opaque handles. A text-generation pipeline
  is called with the keyword arguments below and answers with a list of dictionaries.
\<close>

type_synonym handle = nat

record generation_request =
  text_inputs :: py_str
  num_return_sequences :: nat
  gen_temperature :: rat
  return_full_text :: bool

type_synonym generation_response = "(py_str \<times> py_str) list list"

text \<open>
  What the libraries do is not part of the module: it is a parameter of the model. Each
  entry either raises or returns. A chat-completion request and a pipeline call read and
  change state that belongs to the process and to the world around it, not to an agent:
  the random generator a sampled generation draws from, the connections of the client, the
  remote service. That state is opaque here; the two entries take it and give it back.
\<close>

type_synonym library_state = nat

record libraries =
  chat_completions_create ::
    "openai_client \<Rightarrow> chat_request \<Rightarrow> library_state \<Rightarrow> chat_completion result \<times> library_state"
  AutoTokenizer_from_pretrained :: "py_str \<Rightarrow> handle result"
  AutoModelForCausalLM_from_pretrained :: "py_str \<Rightarrow> bool \<Rightarrow> handle result"
  pipeline_new :: "py_str \<Rightarrow> handle \<Rightarrow> handle \<Rightarrow> handle result"
  pipeline_call ::
    "handle \<Rightarrow> generation_request \<Rightarrow> library_state \<Rightarrow> generation_response result \<times> library_state"

section \<open>Agent instances and the process state\<close>

text \<open>
  The attributes \<^verbatim>\<open>Agent.__init__\<close> sets, and those the subclasses add.
\<close>

record agent =
  model_name :: py_str
  agent_identifier :: py_str

record gpt_agent = agent +
  client :: openai_client

record hf_agent = agent +
  quantize :: bool
  tokenizer :: handle
  model :: handle
  pipeline :: handle

datatype agent_object = Human agent | GPT gpt_agent | HFLocal hf_agent

text \<open>
  The state of the Python process that the module reads or writes: the environment
  variables, the module attribute \<^verbatim>\<open>openai.api_key\<close>, the standard streams, the requests
  sent to the chat-completion endpoint so far, the state of the libraries, and the agent
  objects by identity.

  Standard input is the text waiting to be read; \<open>stdin_read_error\<close> is the exception that
  the next read of a line raises instead, if any (\<^verbatim>\<open>KeyboardInterrupt\<close> when the user
  interrupts the read, \<^verbatim>\<open>UnicodeDecodeError\<close> for bytes that do not decode). Standard output
  is the text written so far; \<open>stdout_rejects\<close> tells for a text what writing it raises, if
  anything (\<^verbatim>\<open>UnicodeEncodeError\<close> for a text the encoding of the stream cannot encode).
  \<open>prompt_on_stderr\<close> holds at a terminal without the readline module, where
  \<^verbatim>\<open>input\<close> shows its prompt on standard error.
\<close>

type_synonym addr = nat

record process =
  environ :: "py_str \<rightharpoonup> py_str"
  openai_api_key :: "py_str option"
  stdin :: py_str
  stdin_read_error :: "py_exception option"
  stdout :: py_str
  stdout_rejects :: "py_str \<Rightarrow> py_exception option"
  stderr :: py_str
  prompt_on_stderr :: bool
  api_calls :: "(openai_client \<times> chat_request) list"
  library_state :: library_state
  heap :: "addr \<rightharpoonup> agent_object"
  next_addr :: addr

subsection \<open>Builtins\<close>

definition os_getenv :: "py_str \<Rightarrow> process \<Rightarrow> py_str option" where
  "os_getenv k w = environ w k"

text \<open>
  \<^verbatim>\<open>sys.stdout.write(s)\<close>: the text is encoded as a whole, so a write that raises has
  written nothing.
\<close>

definition stdout_write :: "py_str \<Rightarrow> process \<Rightarrow> unit result \<times> process" where
  "stdout_write s w =
     (case stdout_rejects w s of
        Some e \<Rightarrow> (Inl e, w)
      | None \<Rightarrow> (Inr (), w\<lparr>stdout := stdout w @ s\<rparr>))"

text \<open>\<^verbatim>\<open>print(s)\<close> writes the text, then a newline, to standard output.\<close>

definition py_print :: "py_str \<Rightarrow> process \<Rightarrow> unit result \<times> process" where
  "py_print s w =
     (case stdout_write s w of
        (Inl e, w1) \<Rightarrow> (Inl e, w1)
      | (Inr u, w1) \<Rightarrow> stdout_write [10] w1)"

text \<open>
  \<^verbatim>\<open>input(prompt)\<close> encodes the prompt for standard output and shows it with no newline, on
  standard output or, at a terminal without readline, on standard error. Then it reads one
  line from standard input and returns it with the trailing newline stripped. A read that
  fails raises its exception; at end of file, with nothing read, the call raises
  \<^verbatim>\<open>EOFError\<close>.
\<close>

definition py_input :: "py_str \<Rightarrow> process \<Rightarrow> py_str result \<times> process" where
  "py_input prompt w =
     (case stdout_rejects w prompt of
        Some e \<Rightarrow> (Inl e, w)
      | None \<Rightarrow>
          (let w1 = (if prompt_on_stderr w then w\<lparr>stderr := stderr w @ prompt\<rparr>
                     else w\<lparr>stdout := stdout w @ prompt\<rparr>)
           in case stdin_read_error w1 of
                Some e \<Rightarrow> (Inl e, w1\<lparr>stdin_read_error := None\<rparr>)
              | None \<Rightarrow>
                  if stdin w1 = []
                  then (Inl (PyExc EOFError (Inr (lit ''EOF when reading a line''))), w1)
                  else (Inr (takeWhile (\<lambda>c. c \<noteq> 10) (stdin w1)),
                        w1\<lparr>stdin := drop 1 (dropWhile (\<lambda>c. c \<noteq> 10) (stdin w1))\<rparr>)))"

text \<open>A new object gets an identity no other object has.\<close>

definition alloc :: "agent_object \<Rightarrow> process \<Rightarrow> addr \<times> process" where
  "alloc obj w =
     (next_addr w, w\<lparr>heap := (heap w)(next_addr w \<mapsto> obj), next_addr := Suc (next_addr w)\<rparr>)"

section \<open>class Agent\<close>

definition Agent_init :: "py_str \<Rightarrow> agent" where
  "Agent_init mname = \<lparr>model_name = mname, agent_identifier = mname\<rparr>"

section \<open>class HumanAgent\<close>

definition HumanAgent_init :: "py_str \<Rightarrow> process \<Rightarrow> addr result \<times> process" where
  "HumanAgent_init mname w =
     (let (a, w') = alloc (Human (Agent_init mname)) w in (Inr a, w'))"

definition HumanAgent_call :: "agent \<Rightarrow> py_str \<Rightarrow> process \<Rightarrow> py_str result \<times> process" where
  "HumanAgent_call self observation w =
     (case py_print observation w of
        (Inl e, w1) \<Rightarrow> (Inl e, w1)
      | (Inr u, w1) \<Rightarrow> py_input (lit ''Please enter the action: '') w1)"

section \<open>class GPTAgent\<close>

definition GPTAgent_init :: "py_str \<Rightarrow> process \<Rightarrow> addr result \<times> process" where
  "GPTAgent_init mname w =
     (let base = Agent_init mname;
          w1 = w\<lparr>openai_api_key := os_getenv (lit ''OPENAI_API_KEY'') w\<rparr>
      in if py_not (openai_api_key w1)
         then (Inl (PyExc ValueError
                 (Inr (lit ''OpenAI API key not found. Please set the OPENAI_API_KEY environment variable.''))),
               w1)
         else
           (let (a, w2) =
                  alloc (GPT \<lparr>model_name = model_name base,
                              agent_identifier = agent_identifier base,
                              client = \<lparr>base_url = lit ''https://openrouter.ai/api/v1''\<rparr>\<rparr>) w1
            in (Inr a, w2)))"

text \<open>
  The handler \<^verbatim>\<open>except Exception as e: return f"An error occurred: {e}"\<close> around a body:
  for an exception of a class derived from \<^verbatim>\<open>Exception\<close> the handler formats the string
  with \<^verbatim>\<open>str(e)\<close> and returns it; when \<^verbatim>\<open>str(e)\<close> raises, that exception leaves the
  handler and goes to the caller. Any other exception of the body goes on to the caller.
\<close>

definition except_Exception :: "py_str result \<Rightarrow> py_str result" where
  "except_Exception body =
     (case body of
        Inr v \<Rightarrow> Inr v
      | Inl e \<Rightarrow>
          if issubclass_Exception (class_of e)
          then (case str_of e of
                  Inr message \<Rightarrow> Inr (lit ''An error occurred: '' @ message)
                | Inl e' \<Rightarrow> Inl e')
          else Inl e)"

text \<open>The request \<^verbatim>\<open>GPTAgent.__call__\<close> sends.\<close>

definition GPTAgent_request :: "gpt_agent \<Rightarrow> py_str \<Rightarrow> chat_request" where
  "GPTAgent_request self observation =
     \<lparr>req_model = model_name self,
      req_messages = [(lit ''system'', lit ''You are a helpful assistant.''),
                      (lit ''user'', observation)],
      req_n = 1,
      req_stop = None,
      req_temperature = 7 / 10\<rparr>"

text \<open>
  \<^verbatim>\<open>response.choices[0].message.content.strip()\<close>: an empty list of choices raises
  \<^verbatim>\<open>IndexError\<close>, a content that is \<^verbatim>\<open>None\<close> raises \<^verbatim>\<open>AttributeError\<close>.
\<close>

definition first_choice_content :: "chat_completion \<Rightarrow> py_str result" where
  "first_choice_content response =
     (case choices response of
        [] \<Rightarrow> Inl (PyExc IndexError (Inr (lit ''list index out of range'')))
      | c # _ \<Rightarrow>
          (case c of
             None \<Rightarrow> Inl (PyExc AttributeError
                       (Inr (quoted (lit ''NoneType'') @ lit '' object has no attribute '' @
                             quoted (lit ''strip''))))
           | Some content \<Rightarrow> Inr (py_strip content)))"

definition GPTAgent_call ::
  "libraries \<Rightarrow> gpt_agent \<Rightarrow> py_str \<Rightarrow> process \<Rightarrow> py_str result \<times> process" where
  "GPTAgent_call lib self observation w =
     (let req = GPTAgent_request self observation;
          (answer, x) = chat_completions_create lib (client self) req (library_state w);
          w1 = w\<lparr>api_calls := api_calls w @ [(client self, req)], library_state := x\<rparr>
      in (except_Exception
            (case answer of
               Inl e \<Rightarrow> Inl e
             | Inr response \<Rightarrow> first_choice_content response),
          w1))"

section \<open>class HFLocalAgent\<close>

definition HFLocalAgent_init ::
  "libraries \<Rightarrow> py_str \<Rightarrow> bool \<Rightarrow> process \<Rightarrow> addr result \<times> process" where
  "HFLocalAgent_init lib mname q w =
     (let base = Agent_init mname in
      case AutoTokenizer_from_pretrained lib mname of
        Inl e \<Rightarrow> (Inl e, w)
      | Inr tok \<Rightarrow>
          (case (if q then AutoModelForCausalLM_from_pretrained lib mname True
                 else AutoModelForCausalLM_from_pretrained lib mname False) of
             Inl e \<Rightarrow> (Inl e, w)
           | Inr mdl \<Rightarrow>
               (case pipeline_new lib (lit ''text-generation'') mdl tok of
                  Inl e \<Rightarrow> (Inl e, w)
                | Inr p \<Rightarrow>
                    (let (a, w') =
                           alloc (HFLocal \<lparr>model_name = model_name base,
                                          agent_identifier = agent_identifier base,
                                          quantize = q, tokenizer = tok, model = mdl,
                                          pipeline = p\<rparr>) w
                     in (Inr a, w')))))"

definition HFLocalAgent_request :: "py_str \<Rightarrow> generation_request" where
  "HFLocalAgent_request observation =
     \<lparr>text_inputs = observation,
      num_return_sequences = 1,
      gen_temperature = 7 / 10,
      return_full_text = False\<rparr>"

text \<open>
  \<^verbatim>\<open>response[0]['generated_text'].strip()\<close>: an empty list raises \<^verbatim>\<open>IndexError\<close>, a
  dictionary without the key raises \<^verbatim>\<open>KeyError\<close>.
\<close>

definition first_generated_text :: "generation_response \<Rightarrow> py_str result" where
  "first_generated_text response =
     (case response of
        [] \<Rightarrow> Inl (PyExc IndexError (Inr (lit ''list index out of range'')))
      | d # _ \<Rightarrow>
          (case map_of d (lit ''generated_text'') of
             None \<Rightarrow> Inl (PyExc KeyError (Inr (quoted (lit ''generated_text''))))
           | Some text \<Rightarrow> Inr (py_strip text)))"

definition HFLocalAgent_call ::
  "libraries \<Rightarrow> hf_agent \<Rightarrow> py_str \<Rightarrow> process \<Rightarrow> py_str result \<times> process" where
  "HFLocalAgent_call lib self observation w =
     (let (answer, x) =
            pipeline_call lib (pipeline self) (HFLocalAgent_request observation) (library_state w)
      in (except_Exception
            (case answer of
               Inl e \<Rightarrow> Inl e
             | Inr response \<Rightarrow> first_generated_text response),
          w\<lparr>library_state := x\<rparr>))"

section \<open>Calling an agent object\<close>

text \<open>
  \<^verbatim>\<open>agent(observation)\<close> runs the \<^verbatim>\<open>__call__\<close> of the object's class. \<open>None\<close> when no
  object has the identity.
\<close>

definition Agent_call ::
  "libraries \<Rightarrow> addr \<Rightarrow> py_str \<Rightarrow> process \<Rightarrow> (py_str result \<times> process) option" where
  "Agent_call lib a observation w =
     (case heap w a of
        None \<Rightarrow> None
      | Some (Human self) \<Rightarrow> Some (HumanAgent_call self observation w)
      | Some (GPT self) \<Rightarrow> Some (GPTAgent_call lib self observation w)
      | Some (HFLocal self) \<Rightarrow> Some (HFLocalAgent_call lib self observation w))"

section \<open>The text-generation pipeline and test doubles\<close>

text \<open>
  Modelled from the spec: the text-generation pipeline of the transformers library, which
  is not part of the repository. Asked for \<open>num_return_sequences\<close> continuations of the
  prompt, it answers with one dictionary per continuation; the \<^verbatim>\<open>generated_text\<close> is the
  continuation alone when \<open>return_full_text\<close> is false (the prompt is excluded from the
  returned text), and the prompt followed by the continuation otherwise. \<open>sample\<close> gives
  the continuations the model generates for a prompt.
\<close>

definition text_generation_pipeline ::
  "(py_str \<Rightarrow> py_str list) \<Rightarrow> generation_request \<Rightarrow> generation_response result" where
  "text_generation_pipeline sample req =
     Inr (map (\<lambda>c. [(lit ''generated_text'',
                       if return_full_text req then text_inputs req @ c else c)])
            (take (num_return_sequences req) (sample (text_inputs req))))"

text \<open>
  A mocked client and pipeline: every chat-completion request gets the answer \<open>chat\<close>,
  every pipeline call gets \<open>gen\<close> applied to its request, each advancing the state of the
  libraries by one, and loading always succeeds.
\<close>

definition mock_libraries ::
  "chat_completion result \<Rightarrow> (generation_request \<Rightarrow> generation_response result) \<Rightarrow> libraries" where
  "mock_libraries chat gen =
     \<lparr>chat_completions_create = (\<lambda>c r x. (chat, Suc x)),
      AutoTokenizer_from_pretrained = (\<lambda>m. Inr 1),
      AutoModelForCausalLM_from_pretrained = (\<lambda>m q. Inr 2),
      pipeline_new = (\<lambda>t m k. Inr 3),
      pipeline_call = (\<lambda>p r x. (gen r, Suc x))\<rparr>"

text \<open>
  A fresh process: the environment and the captured input given, no agent yet. Its
  standard output is not a terminal and takes every text.
\<close>

definition fresh_process :: "(py_str \<rightharpoonup> py_str) \<Rightarrow> py_str \<Rightarrow> process" where
  "fresh_process env captured =
     \<lparr>environ = env, openai_api_key = None, stdin = captured, stdin_read_error = None,
      stdout = [], stdout_rejects = (\<lambda>s. None), stderr = [], prompt_on_stderr = False,
      api_calls = [], library_state = 0, heap = Map.empty, next_addr = 0\<rparr>"


definition surrogate_error :: py_exception where
  "surrogate_error =
     PyExc UnicodeEncodeError
       (Inr (quoted (lit ''utf-8'') @ lit '' codec can'' @ [39] @ lit ''t encode character '' @
             quoted ([92] @ lit ''ud800'') @ lit '' in position 5: surrogates not allowed''))"


text \<open>The identifier an agent object of any class stores, and the data-model invariant.\<close>

fun stored_identifier :: "agent_object \<Rightarrow> py_str" where
  "stored_identifier (Human s) = model_name s"
| "stored_identifier (GPT s) = model_name s"
| "stored_identifier (HFLocal s) = model_name s"

definition identifiers_nonempty :: "process \<Rightarrow> bool" where
  "identifiers_nonempty w \<longleftrightarrow> (\<forall>obj \<in> ran (heap w). stored_identifier obj \<noteq> [])"

text \<open>Example objects: a remote agent, a local agent and a human agent as constructed.\<close>

definition example_gpt_agent :: gpt_agent where
  "example_gpt_agent =
     \<lparr>model_name = lit ''gpt-4o'', agent_identifier = lit ''gpt-4o'',
      client = \<lparr>base_url = lit ''https://openrouter.ai/api/v1''\<rparr>\<rparr>"

definition example_hf_agent :: hf_agent where
  "example_hf_agent =
     \<lparr>model_name = lit ''gpt2'', agent_identifier = lit ''gpt2'',
      quantize = False, tokenizer = 1, model = 2, pipeline = 3\<rparr>"

definition example_human_agent :: agent where
  "example_human_agent = \<lparr>model_name = lit ''human'', agent_identifier = lit ''human''\<rparr>"

definition connection_error :: py_exception where
  "connection_error =
     PyExc (OtherException ''APIConnectionError'') (Inr (lit ''Connection error.''))"

text \<open>
  What the spec calls trimmed: \<open>t\<close> is \<open>s\<close> without a leading and a trailing run of
  whitespace, and \<open>t\<close> itself neither starts nor ends with whitespace.
\<close>

definition trimmed_of :: "py_str \<Rightarrow> py_str \<Rightarrow> bool" where
  "trimmed_of s t \<longleftrightarrow>
     (\<exists>pre suf. s = pre @ t @ suf \<and> list_all py_isspace pre \<and> list_all py_isspace suf) \<and>
     (t = [] \<or> (\<not> py_isspace (hd t) \<and> \<not> py_isspace (last t)))"

text \<open>
  Libraries whose client answers with one choice and whose pipeline generates one
  continuation, both with whitespace around the text.
\<close>

definition example_libraries :: libraries where
  "example_libraries =
     mock_libraries (Inr \<lparr>choices = [Some (lit ''  go north '' @ [10])]\<rparr>)
       (text_generation_pipeline (\<lambda>p. [lit '' go north'' @ [10]]))"

text \<open>
  A process in which one agent of each class has been constructed, in the order human,
  remote, local, with the credential set and one line of input waiting.
\<close>

definition example_process :: process where
  "example_process =
     snd (HFLocalAgent_init example_libraries (lit ''gpt2'') False
       (snd (GPTAgent_init (lit ''gpt-4o'')
         (snd (HumanAgent_init (lit ''human'')
           (fresh_process [lit ''OPENAI_API_KEY'' \<mapsto> lit ''sk-test''] (lit ''hello'' @ [10])))))))"

text \<open>Two human agents in one process, with two lines of input waiting.\<close>

definition two_humans :: process where
  "two_humans =
     snd (HumanAgent_init (lit ''bob'')
       (snd (HumanAgent_init (lit ''alice'')
         (fresh_process Map.empty (lit ''north'' @ [10] @ lit ''south'' @ [10])))))"

text \<open>
  Object identities are fresh when every object of the heap has an identity below the next
  one to be given out. Every process that starts fresh and runs constructors and calls is
  of this kind.
\<close>

definition identities_fresh :: "process \<Rightarrow> bool" where
  "identities_fresh w \<longleftrightarrow> (\<forall>a \<in> dom (heap w). a < next_addr w)"

text \<open>
  Standard output takes what a call of the interactive variant writes: the observation,
  the newline, and the prompt.
\<close>

definition stdout_takes :: "process \<Rightarrow> py_str \<Rightarrow> bool" where
  "stdout_takes w observation \<longleftrightarrow>
     stdout_rejects w observation = None \<and> stdout_rejects w [10] = None \<and>
     stdout_rejects w (lit ''Please enter the action: '') = None"

section \<open>Auxiliary facts\<close>

subsection \<open>Literals and trimming\<close>

lemma lit_eq_Nil: "lit s = [] \<longleftrightarrow> s = []"
  by (simp add: lit_def)

lemma lit_no_newline_north: "10 \<notin> set (lit ''north'')"
  by (simp add: lit_def)

lemma lit_no_newline_south: "10 \<notin> set (lit ''south'')"
  by (simp add: lit_def)

lemma py_strip_split:
  "s = takeWhile py_isspace s @ py_strip s @
       rev (takeWhile py_isspace (rev (dropWhile py_isspace s)))"
proof -
  let ?t = "dropWhile py_isspace s"
  have "py_strip s @ rev (takeWhile py_isspace (rev ?t)) =
        rev (takeWhile py_isspace (rev ?t) @ dropWhile py_isspace (rev ?t))"
    by (simp only: py_strip_def rev_append)
  also have "\<dots> = rev (rev ?t)"
    by (simp only: takeWhile_dropWhile_id)
  also have "\<dots> = ?t"
    by (simp only: rev_rev_ident)
  finally have "takeWhile py_isspace s @ py_strip s @ rev (takeWhile py_isspace (rev ?t)) =
                takeWhile py_isspace s @ ?t"
    by (simp only:)
  then show ?thesis
    by (simp only: takeWhile_dropWhile_id)
qed

lemma py_strip_hd: "py_strip s \<noteq> [] \<Longrightarrow> \<not> py_isspace (hd (py_strip s))"
proof -
  assume ne: "py_strip s \<noteq> []"
  let ?t = "dropWhile py_isspace s"
  have t_ne: "?t \<noteq> []"
  proof
    assume "?t = []"
    then have "py_strip s = rev (dropWhile py_isspace (rev []))"
      by (simp only: py_strip_def)
    with ne show False by simp
  qed
  have hd_t: "\<not> py_isspace (hd ?t)" using t_ne by (rule hd_dropWhile)
  have "takeWhile py_isspace s @ ?t =
        takeWhile py_isspace s @ py_strip s @ rev (takeWhile py_isspace (rev ?t))"
    using py_strip_split [of s] by (simp only: takeWhile_dropWhile_id)
  then have "?t = py_strip s @ rev (takeWhile py_isspace (rev ?t))"
    by (simp only: same_append_eq)
  then have "hd ?t = hd (py_strip s @ rev (takeWhile py_isspace (rev ?t)))"
    by (simp only:)
  moreover have "hd (py_strip s @ rev (takeWhile py_isspace (rev ?t))) = hd (py_strip s)"
    using ne by (rule hd_append2)
  ultimately have "hd ?t = hd (py_strip s)" by (simp only:)
  with hd_t show ?thesis by simp
qed

lemma py_strip_last: "py_strip s \<noteq> [] \<Longrightarrow> \<not> py_isspace (last (py_strip s))"
proof -
  assume ne: "py_strip s \<noteq> []"
  let ?u = "dropWhile py_isspace (rev (dropWhile py_isspace s))"
  have u_ne: "?u \<noteq> []" using ne by (simp add: py_strip_def)
  have "\<not> py_isspace (hd ?u)" using u_ne by (rule hd_dropWhile)
  moreover have "last (py_strip s) = hd ?u"
    using u_ne by (simp add: py_strip_def last_rev)
  ultimately show ?thesis by simp
qed

lemma py_strip_trims:
  "\<exists>pre suf. s = pre @ py_strip s @ suf \<and> list_all py_isspace pre \<and> list_all py_isspace suf"
proof -
  have "list_all py_isspace (takeWhile py_isspace s)"
    by (simp add: list_all_iff) (meson set_takeWhileD)
  moreover have "list_all py_isspace (rev (takeWhile py_isspace (rev (dropWhile py_isspace s))))"
    by (simp add: list_all_iff) (meson set_takeWhileD)
  ultimately show ?thesis using py_strip_split [of s] by blast
qed

lemma trimmed_of_py_strip: "trimmed_of s (py_strip s)"
  unfolding trimmed_of_def using py_strip_trims [of s] py_strip_hd [of s] py_strip_last [of s]
  by blast

subsection \<open>The interactive call\<close>

lemma takeWhile_line: "10 \<notin> set line \<Longrightarrow> takeWhile (\<lambda>c. c \<noteq> (10::nat)) (line @ 10 # rest) = line"
  by (induction line) auto

lemma dropWhile_line:
  "10 \<notin> set line \<Longrightarrow> dropWhile (\<lambda>c. c \<noteq> (10::nat)) (line @ 10 # rest) = 10 # rest"
  by (induction line) auto

lemma takeWhile_last_line: "10 \<notin> set line \<Longrightarrow> takeWhile (\<lambda>c. c \<noteq> (10::nat)) line = line"
  by (induction line) auto

lemma dropWhile_last_line: "10 \<notin> set line \<Longrightarrow> dropWhile (\<lambda>c. c \<noteq> (10::nat)) line = []"
  by (induction line) auto

lemma rest_of_line_shorter:
  "xs \<noteq> [] \<Longrightarrow> length (dropWhile P xs) - Suc 0 < length xs"
proof -
  assume "xs \<noteq> []"
  then have "0 < length xs" by simp
  moreover have "length (dropWhile P xs) \<le> length xs" by (rule length_dropWhile_le)
  ultimately show ?thesis by arith
qed

lemma HumanAgent_call_line:
  "stdout_takes w observation \<Longrightarrow> stdin_read_error w = None \<Longrightarrow> 10 \<notin> set line \<Longrightarrow>
   stdin w = line @ 10 # rest \<or> (stdin w = line \<and> line \<noteq> [] \<and> rest = []) \<Longrightarrow>
   HumanAgent_call self observation w =
     (Inr line,
      if prompt_on_stderr w
      then w\<lparr>stdout := stdout w @ observation @ [10],
             stderr := stderr w @ lit ''Please enter the action: '',
             stdin := rest\<rparr>
      else w\<lparr>stdout := stdout w @ observation @ [10] @ lit ''Please enter the action: '',
             stdin := rest\<rparr>)"
  by (auto simp add: HumanAgent_call_def py_input_def py_print_def stdout_write_def Let_def
      stdout_takes_def takeWhile_line dropWhile_line takeWhile_last_line dropWhile_last_line)

lemma HumanAgent_call_rejected:
  "stdout_rejects w observation = Some e \<Longrightarrow> HumanAgent_call self observation w = (Inl e, w)"
  by (simp add: HumanAgent_call_def py_print_def stdout_write_def)

lemma HumanAgent_call_returns:
  "(\<exists>s. fst (HumanAgent_call self observation w) = Inr s) \<longleftrightarrow>
   stdout_takes w observation \<and> stdin_read_error w = None \<and> stdin w \<noteq> []"
  by (auto simp add: HumanAgent_call_def py_input_def py_print_def stdout_write_def Let_def
      stdout_takes_def split: option.splits)

lemma HumanAgent_call_EOF:
  "stdout_takes w observation \<Longrightarrow> stdin_read_error w = None \<Longrightarrow> stdin w = [] \<Longrightarrow>
   fst (HumanAgent_call self observation w) =
     Inl (PyExc EOFError (Inr (lit ''EOF when reading a line'')))"
  by (auto simp add: HumanAgent_call_def py_input_def py_print_def stdout_write_def Let_def
      stdout_takes_def split: option.splits)

lemma HumanAgent_call_self: "HumanAgent_call self observation w = HumanAgent_call self' observation w"
  by (simp add: HumanAgent_call_def)

lemma HumanAgent_call_consumes:
  "fst (HumanAgent_call self observation w) = Inr line \<Longrightarrow>
   length (stdin (snd (HumanAgent_call self observation w))) < length (stdin w)"
  by (auto simp add: HumanAgent_call_def py_input_def py_print_def stdout_write_def Let_def
      rest_of_line_shorter split: option.splits if_splits)

lemma fresh_process_takes: "stdout_takes (fresh_process env captured) observation"
  by (simp add: stdout_takes_def fresh_process_def)

subsection \<open>The exception handler\<close>

lemma except_Exception_raised:
  "except_Exception (Inl e) =
     (if issubclass_Exception (class_of e)
      then (case str_of e of
              Inr message \<Rightarrow> Inr (lit ''An error occurred: '' @ message)
            | Inl e' \<Rightarrow> Inl e')
      else Inl e)"
  by (simp add: except_Exception_def)

lemma except_Exception_value: "except_Exception (Inr v) = Inr v"
  by (simp add: except_Exception_def)

lemma first_choice_content_class:
  "first_choice_content response = Inl e \<Longrightarrow>
   issubclass_Exception (class_of e) \<and> (\<exists>message. str_of e = Inr message)"
  by (auto simp: first_choice_content_def split: list.splits option.splits)

lemma first_generated_text_class:
  "first_generated_text response = Inl e \<Longrightarrow>
   issubclass_Exception (class_of e) \<and> (\<exists>message. str_of e = Inr message)"
  by (auto simp: first_generated_text_def split: list.splits option.splits)

lemma except_Exception_returns:
  "(\<exists>s. except_Exception body = Inr s) \<longleftrightarrow>
   (\<forall>e. body = Inl e \<longrightarrow> issubclass_Exception (class_of e) \<and> (\<exists>message. str_of e = Inr message))"
  by (cases body) (auto simp: except_Exception_def split: sum.splits)

lemma GPTAgent_call_fst:
  "fst (GPTAgent_call lib self observation w) =
     except_Exception
       (case fst (chat_completions_create lib (client self) (GPTAgent_request self observation)
                    (library_state w)) of
          Inl e \<Rightarrow> Inl e
        | Inr response \<Rightarrow> first_choice_content response)"
  by (simp add: GPTAgent_call_def Let_def split: prod.splits)

lemma HFLocalAgent_call_fst:
  "fst (HFLocalAgent_call lib self observation w) =
     except_Exception
       (case fst (pipeline_call lib (pipeline self) (HFLocalAgent_request observation)
                    (library_state w)) of
          Inl e \<Rightarrow> Inl e
        | Inr response \<Rightarrow> first_generated_text response)"
  by (simp add: HFLocalAgent_call_def Let_def split: prod.splits)

subsection \<open>What constructors and calls do to the heap\<close>

lemma HumanAgent_call_heap: "heap (snd (HumanAgent_call self observation w)) = heap w"
  by (simp add: HumanAgent_call_def py_input_def py_print_def stdout_write_def Let_def
      split: option.splits)

lemma GPTAgent_call_heap: "heap (snd (GPTAgent_call lib self observation w)) = heap w"
  by (simp add: GPTAgent_call_def Let_def split: prod.splits)

lemma HFLocalAgent_call_heap: "heap (snd (HFLocalAgent_call lib self observation w)) = heap w"
  by (simp add: HFLocalAgent_call_def split: prod.splits)

lemma HumanAgent_call_frame:
  "next_addr (snd (HumanAgent_call self observation w)) = next_addr w \<and>
   environ (snd (HumanAgent_call self observation w)) = environ w \<and>
   openai_api_key (snd (HumanAgent_call self observation w)) = openai_api_key w"
  by (simp add: HumanAgent_call_def py_input_def py_print_def stdout_write_def Let_def
      split: option.splits)

lemma GPTAgent_call_frame:
  "next_addr (snd (GPTAgent_call lib self observation w)) = next_addr w \<and>
   environ (snd (GPTAgent_call lib self observation w)) = environ w \<and>
   openai_api_key (snd (GPTAgent_call lib self observation w)) = openai_api_key w"
  by (simp add: GPTAgent_call_def Let_def split: prod.splits)

lemma HFLocalAgent_call_frame:
  "next_addr (snd (HFLocalAgent_call lib self observation w)) = next_addr w \<and>
   environ (snd (HFLocalAgent_call lib self observation w)) = environ w \<and>
   openai_api_key (snd (HFLocalAgent_call lib self observation w)) = openai_api_key w"
  by (simp add: HFLocalAgent_call_def split: prod.splits)

lemma Agent_call_cases:
  "Agent_call lib a observation w = Some (r, w') \<Longrightarrow>
   (\<exists>self. w' = snd (HumanAgent_call self observation w)) \<or>
   (\<exists>self. w' = snd (GPTAgent_call lib self observation w)) \<or>
   (\<exists>self. w' = snd (HFLocalAgent_call lib self observation w))"
  unfolding Agent_call_def
  by (simp split: option.splits agent_object.splits) (metis snd_conv)+

lemma Agent_call_heap: "Agent_call lib a observation w = Some (r, w') \<Longrightarrow> heap w' = heap w"
  by (auto dest!: Agent_call_cases
      simp: HumanAgent_call_heap GPTAgent_call_heap HFLocalAgent_call_heap)

lemma Agent_call_frame:
  "Agent_call lib a observation w = Some (r, w') \<Longrightarrow>
   next_addr w' = next_addr w \<and> environ w' = environ w \<and> openai_api_key w' = openai_api_key w"
  by (auto dest!: Agent_call_cases
      simp: HumanAgent_call_frame GPTAgent_call_frame HFLocalAgent_call_frame)

lemma HumanAgent_init_eq:
  "HumanAgent_init mname w =
     (Inr (next_addr w),
      w\<lparr>heap := (heap w)(next_addr w \<mapsto> Human (Agent_init mname)),
        next_addr := Suc (next_addr w)\<rparr>)"
  by (simp add: HumanAgent_init_def alloc_def)

lemma GPTAgent_init_ok:
  "GPTAgent_init mname w = (Inr a, w') \<Longrightarrow>
   a = next_addr w \<and>
   w' = w\<lparr>openai_api_key := environ w (lit ''OPENAI_API_KEY''),
          heap := (heap w)(next_addr w \<mapsto>
             GPT \<lparr>model_name = mname, agent_identifier = mname,
                  client = \<lparr>base_url = lit ''https://openrouter.ai/api/v1''\<rparr>\<rparr>),
          next_addr := Suc (next_addr w)\<rparr>"
  by (auto simp: GPTAgent_init_def alloc_def os_getenv_def Let_def Agent_init_def
      split: if_splits)

lemma HFLocalAgent_init_ok:
  "HFLocalAgent_init lib mname q w = (Inr a, w') \<Longrightarrow>
   a = next_addr w \<and>
   (\<exists>tok mdl p.
      AutoTokenizer_from_pretrained lib mname = Inr tok \<and>
      AutoModelForCausalLM_from_pretrained lib mname q = Inr mdl \<and>
      pipeline_new lib (lit ''text-generation'') mdl tok = Inr p \<and>
      w' = w\<lparr>heap := (heap w)(next_addr w \<mapsto>
             HFLocal \<lparr>model_name = mname, agent_identifier = mname, quantize = q,
                      tokenizer = tok, model = mdl, pipeline = p\<rparr>),
             next_addr := Suc (next_addr w)\<rparr>)"
  by (auto simp: HFLocalAgent_init_def alloc_def Let_def Agent_init_def
      split: sum.splits if_splits)

lemma GPTAgent_init_api_key:
  "openai_api_key (snd (GPTAgent_init mname w)) = environ w (lit ''OPENAI_API_KEY'')"
  by (simp add: GPTAgent_init_def alloc_def os_getenv_def Let_def)

lemma GPTAgent_init_heap:
  "heap (snd (GPTAgent_init mname w)) = heap w \<or>
   heap (snd (GPTAgent_init mname w)) =
     (heap w)(next_addr w \<mapsto> GPT \<lparr>model_name = mname, agent_identifier = mname,
        client = \<lparr>base_url = lit ''https://openrouter.ai/api/v1''\<rparr>\<rparr>)"
  by (simp add: GPTAgent_init_def alloc_def os_getenv_def Let_def Agent_init_def)

lemma HFLocalAgent_init_heap:
  "heap (snd (HFLocalAgent_init lib mname q w)) = heap w \<or>
   (\<exists>tok mdl p. heap (snd (HFLocalAgent_init lib mname q w)) =
     (heap w)(next_addr w \<mapsto> HFLocal \<lparr>model_name = mname, agent_identifier = mname,
        quantize = q, tokenizer = tok, model = mdl, pipeline = p\<rparr>))"
  by (auto simp: HFLocalAgent_init_def alloc_def Let_def Agent_init_def split: sum.splits)

lemma HumanAgent_init_heap_other:
  "b \<noteq> next_addr w \<Longrightarrow> heap (snd (HumanAgent_init mname w)) b = heap w b"
  by (simp add: HumanAgent_init_eq)

lemma GPTAgent_init_heap_other:
  "b \<noteq> next_addr w \<Longrightarrow> heap (snd (GPTAgent_init mname w)) b = heap w b"
  using GPTAgent_init_heap [of mname w] by auto

lemma HFLocalAgent_init_heap_other:
  "b \<noteq> next_addr w \<Longrightarrow> heap (snd (HFLocalAgent_init lib mname q w)) b = heap w b"
  using HFLocalAgent_init_heap [of lib mname q w] by auto

lemma identifiers_nonempty_alloc:
  "identifiers_nonempty w \<Longrightarrow> stored_identifier obj \<noteq> [] \<Longrightarrow> heap w' = (heap w)(a \<mapsto> obj) \<Longrightarrow>
   identifiers_nonempty w'"
  by (auto simp: identifiers_nonempty_def ran_def split: if_splits)

lemma identifiers_nonempty_heap:
  "identifiers_nonempty w \<Longrightarrow> heap w' = heap w \<Longrightarrow> identifiers_nonempty w'"
  by (simp add: identifiers_nonempty_def)

subsection \<open>Fresh identities\<close>

lemma identities_fresh_fresh_process: "identities_fresh (fresh_process env captured)"
  by (simp add: identities_fresh_def fresh_process_def)

lemma identities_fresh_existing:
  "identities_fresh w \<Longrightarrow> heap w b = Some obj \<Longrightarrow> b \<noteq> next_addr w"
  by (auto simp: identities_fresh_def)

lemma identities_fresh_alloc:
  "identities_fresh w \<Longrightarrow> heap w' = (heap w)(next_addr w \<mapsto> obj) \<Longrightarrow>
   next_addr w' = Suc (next_addr w) \<Longrightarrow> identities_fresh w'"
  by (fastforce simp: identities_fresh_def less_Suc_eq split: if_splits)

lemma identities_fresh_same:
  "identities_fresh w \<Longrightarrow> heap w' = heap w \<Longrightarrow> next_addr w' = next_addr w \<Longrightarrow>
   identities_fresh w'"
  by (simp add: identities_fresh_def)

lemma GPTAgent_init_shape:
  "(heap (snd (GPTAgent_init mname w)) = heap w \<and>
    next_addr (snd (GPTAgent_init mname w)) = next_addr w) \<or>
   (\<exists>obj. heap (snd (GPTAgent_init mname w)) = (heap w)(next_addr w \<mapsto> obj) \<and>
      next_addr (snd (GPTAgent_init mname w)) = Suc (next_addr w))"
  by (auto simp add: GPTAgent_init_def alloc_def os_getenv_def Let_def)

lemma HFLocalAgent_init_shape:
  "(heap (snd (HFLocalAgent_init lib mname q w)) = heap w \<and>
    next_addr (snd (HFLocalAgent_init lib mname q w)) = next_addr w) \<or>
   (\<exists>obj. heap (snd (HFLocalAgent_init lib mname q w)) = (heap w)(next_addr w \<mapsto> obj) \<and>
      next_addr (snd (HFLocalAgent_init lib mname q w)) = Suc (next_addr w))"
  by (auto simp: HFLocalAgent_init_def alloc_def Let_def split: sum.splits)

lemma HumanAgent_init_fresh:
  "identities_fresh w \<Longrightarrow> identities_fresh (snd (HumanAgent_init mname w))"
  by (rule identities_fresh_alloc [where obj = "Human (Agent_init mname)"])
     (simp_all add: HumanAgent_init_eq)

lemma GPTAgent_init_fresh:
  "identities_fresh w \<Longrightarrow> identities_fresh (snd (GPTAgent_init mname w))"
  using GPTAgent_init_shape [of mname w]
  by (auto intro: identities_fresh_same identities_fresh_alloc)

lemma HFLocalAgent_init_fresh:
  "identities_fresh w \<Longrightarrow> identities_fresh (snd (HFLocalAgent_init lib mname q w))"
  using HFLocalAgent_init_shape [of lib mname q w]
  by (auto intro: identities_fresh_same identities_fresh_alloc)

lemma Agent_call_fresh:
  "Agent_call lib a observation w = Some (r, w') \<Longrightarrow> identities_fresh w \<Longrightarrow> identities_fresh w'"
  by (auto intro: identities_fresh_same dest: Agent_call_heap Agent_call_frame)

subsection \<open>The example processes\<close>

lemma example_process_heap:
  "heap example_process =
     [0 \<mapsto> Human example_human_agent, Suc 0 \<mapsto> GPT example_gpt_agent,
      Suc (Suc 0) \<mapsto> HFLocal example_hf_agent]"
  by (simp add: example_process_def HFLocalAgent_init_def GPTAgent_init_def HumanAgent_init_def
      fresh_process_def alloc_def Agent_init_def os_getenv_def Let_def example_libraries_def
      mock_libraries_def example_human_agent_def example_gpt_agent_def example_hf_agent_def
      lit_eq_Nil)

lemma example_process_next_addr: "next_addr example_process = Suc (Suc (Suc 0))"
  by (simp add: example_process_def HFLocalAgent_init_def GPTAgent_init_def HumanAgent_init_eq
      fresh_process_def alloc_def os_getenv_def Let_def example_libraries_def
      mock_libraries_def lit_eq_Nil)

lemma example_process_invariant: "identifiers_nonempty example_process"
  by (auto simp: identifiers_nonempty_def ran_def example_process_heap example_human_agent_def
      example_gpt_agent_def example_hf_agent_def lit_eq_Nil split: if_splits)

lemma example_process_fresh: "identities_fresh example_process"
  unfolding example_process_def
  by (intro HFLocalAgent_init_fresh GPTAgent_init_fresh HumanAgent_init_fresh
      identities_fresh_fresh_process)

lemma example_process_streams:
  "stdin example_process = lit ''hello'' @ [10]" "stdin_read_error example_process = None"
  "stdout_takes example_process observation"
  by (simp_all add: example_process_def HFLocalAgent_init_def GPTAgent_init_def
      HumanAgent_init_eq fresh_process_def alloc_def os_getenv_def Let_def example_libraries_def
      mock_libraries_def lit_eq_Nil stdout_takes_def)

lemma two_humans_eq:
  "two_humans =
     (fresh_process Map.empty (lit ''north'' @ [10] @ lit ''south'' @ [10]))
       \<lparr>heap := [0 \<mapsto> Human (Agent_init (lit ''alice'')),
                 Suc 0 \<mapsto> Human (Agent_init (lit ''bob''))],
        next_addr := Suc (Suc 0)\<rparr>"
  by (simp add: two_humans_def HumanAgent_init_eq fresh_process_def)

section \<open>Per-call failures (C1, C2)\<close>

text \<open>
  Claim C1, as the code has it. Let the client of the remote-model variant, or the pipeline
  of the local-model variant, raise an exception \<open>e\<close> during a call, for any observation and
  any process state. When the class of \<open>e\<close> derives from \<^verbatim>\<open>Exception\<close> and \<^verbatim>\<open>str(e)\<close> gives
  a message, the call does not propagate \<open>e\<close>: it returns the string
  \<^verbatim>\<open>An error occurred: \<close> followed by the message. When \<^verbatim>\<open>str(e)\<close> itself raises, that
  exception leaves the handler and reaches the caller. When the class of \<open>e\<close> derives from
  \<^verbatim>\<open>BaseException\<close> only, \<open>e\<close> reaches the caller.
\<close>

theorem remote_and_local_errors_become_strings:
  "(fst (chat_completions_create lib (client gself) (GPTAgent_request gself observation)
           (library_state w)) = Inl e \<longrightarrow>
      fst (GPTAgent_call lib gself observation w) =
        (if issubclass_Exception (class_of e)
         then (case str_of e of
                 Inr message \<Rightarrow> Inr (lit ''An error occurred: '' @ message)
               | Inl e' \<Rightarrow> Inl e')
         else Inl e)) \<and>
   (fst (pipeline_call lib (pipeline lself) (HFLocalAgent_request observation)
           (library_state w)) = Inl e \<longrightarrow>
      fst (HFLocalAgent_call lib lself observation w) =
        (if issubclass_Exception (class_of e)
         then (case str_of e of
                 Inr message \<Rightarrow> Inr (lit ''An error occurred: '' @ message)
               | Inl e' \<Rightarrow> Inl e')
         else Inl e))"
  by (simp add: GPTAgent_call_fst HFLocalAgent_call_fst except_Exception_raised)

text \<open>
  A mocked client and a mocked pipeline that raise a connection error.
\<close>

theorem remote_and_local_errors_become_strings_witness:
  "fst (chat_completions_create (mock_libraries (Inl connection_error) (\<lambda>r. Inl connection_error))
     (client example_gpt_agent) (GPTAgent_request example_gpt_agent (lit ''Your move''))
     (library_state (fresh_process Map.empty [])))
     = Inl connection_error \<and>
   fst (pipeline_call (mock_libraries (Inl connection_error) (\<lambda>r. Inl connection_error))
     (pipeline example_hf_agent) (HFLocalAgent_request (lit ''Your move''))
     (library_state (fresh_process Map.empty [])))
     = Inl connection_error \<and>
   issubclass_Exception (class_of connection_error) \<and>
   str_of connection_error = Inr (lit ''Connection error.'') \<and>
   fst (GPTAgent_call (mock_libraries (Inl connection_error) (\<lambda>r. Inl connection_error))
          example_gpt_agent (lit ''Your move'') (fresh_process Map.empty []))
     = Inr (lit ''An error occurred: Connection error.'') \<and>
   fst (HFLocalAgent_call (mock_libraries (Inl connection_error) (\<lambda>r. Inl connection_error))
          example_hf_agent (lit ''Your move'') (fresh_process Map.empty []))
     = Inr (lit ''An error occurred: Connection error.'')"
  using remote_and_local_errors_become_strings
    [of "mock_libraries (Inl connection_error) (\<lambda>r. Inl connection_error)"
        example_gpt_agent "lit ''Your move''" "fresh_process Map.empty []" connection_error
        example_hf_agent]
  by (simp add: mock_libraries_def connection_error_def lit_def)

text \<open>
  C1 as stated speaks of any exception. A \<^verbatim>\<open>KeyboardInterrupt\<close> raised while the client or
  the pipeline runs derives from \<^verbatim>\<open>BaseException\<close> only, and both variants let it through
  to the caller.
\<close>

theorem keyboard_interrupt_reaches_caller:
  "fst (chat_completions_create
     (mock_libraries (Inl (PyExc KeyboardInterrupt (Inr [])))
        (\<lambda>r. Inl (PyExc KeyboardInterrupt (Inr []))))
     (client example_gpt_agent) (GPTAgent_request example_gpt_agent (lit ''Your move''))
     (library_state (fresh_process Map.empty [])))
     = Inl (PyExc KeyboardInterrupt (Inr [])) \<and>
   fst (GPTAgent_call
          (mock_libraries (Inl (PyExc KeyboardInterrupt (Inr [])))
             (\<lambda>r. Inl (PyExc KeyboardInterrupt (Inr []))))
          example_gpt_agent (lit ''Your move'') (fresh_process Map.empty []))
     = Inl (PyExc KeyboardInterrupt (Inr [])) \<and>
   fst (pipeline_call
     (mock_libraries (Inl (PyExc KeyboardInterrupt (Inr [])))
        (\<lambda>r. Inl (PyExc KeyboardInterrupt (Inr []))))
     (pipeline example_hf_agent) (HFLocalAgent_request (lit ''Your move''))
     (library_state (fresh_process Map.empty [])))
     = Inl (PyExc KeyboardInterrupt (Inr [])) \<and>
   fst (HFLocalAgent_call
          (mock_libraries (Inl (PyExc KeyboardInterrupt (Inr [])))
             (\<lambda>r. Inl (PyExc KeyboardInterrupt (Inr []))))
          example_hf_agent (lit ''Your move'') (fresh_process Map.empty []))
     = Inl (PyExc KeyboardInterrupt (Inr []))"
  by (simp add: mock_libraries_def GPTAgent_call_fst HFLocalAgent_call_fst
      except_Exception_raised)

text \<open>
  Claim C2, as the code has it. A call of the interactive variant returns a string exactly
  when standard output takes the observation, the newline and the prompt, the read of
  standard input does not fail, and standard input is not at its end. At the end of input
  it raises \<^verbatim>\<open>EOFError\<close> to the caller, and when standard output rejects the observation it
  raises the exception of the write. A call of the remote-model or of the local-model
  variant returns a string exactly when every exception the client or pipeline raises
  derives from \<^verbatim>\<open>Exception\<close> and has a \<^verbatim>\<open>str\<close> that returns. (A malformed answer raises
  \<^verbatim>\<open>IndexError\<close>, \<^verbatim>\<open>AttributeError\<close> or \<^verbatim>\<open>KeyError\<close> inside the \<^verbatim>\<open>try\<close>, and these are
  handled.)
\<close>

theorem call_returns_string_iff:
  "((\<exists>s. fst (HumanAgent_call hself observation w) = Inr s) \<longleftrightarrow>
      stdout_takes w observation \<and> stdin_read_error w = None \<and> stdin w \<noteq> []) \<and>
   (stdout_takes w observation \<and> stdin_read_error w = None \<and> stdin w = [] \<longrightarrow>
      fst (HumanAgent_call hself observation w) =
        Inl (PyExc EOFError (Inr (lit ''EOF when reading a line'')))) \<and>
   (stdout_rejects w observation = Some e \<longrightarrow>
      fst (HumanAgent_call hself observation w) = Inl e) \<and>
   ((\<exists>s. fst (GPTAgent_call lib gself observation w) = Inr s) \<longleftrightarrow>
      (\<forall>e. fst (chat_completions_create lib (client gself) (GPTAgent_request gself observation)
                  (library_state w)) = Inl e
            \<longrightarrow> issubclass_Exception (class_of e) \<and> (\<exists>message. str_of e = Inr message))) \<and>
   ((\<exists>s. fst (HFLocalAgent_call lib lself observation w) = Inr s) \<longleftrightarrow>
      (\<forall>e. fst (pipeline_call lib (pipeline lself) (HFLocalAgent_request observation)
                  (library_state w)) = Inl e
            \<longrightarrow> issubclass_Exception (class_of e) \<and> (\<exists>message. str_of e = Inr message)))"
proof (intro conjI)
  show "(\<exists>s. fst (HumanAgent_call hself observation w) = Inr s) \<longleftrightarrow>
      stdout_takes w observation \<and> stdin_read_error w = None \<and> stdin w \<noteq> []"
    by (rule HumanAgent_call_returns)
next
  show "stdout_takes w observation \<and> stdin_read_error w = None \<and> stdin w = [] \<longrightarrow>
      fst (HumanAgent_call hself observation w) =
        Inl (PyExc EOFError (Inr (lit ''EOF when reading a line'')))"
    by (simp add: HumanAgent_call_EOF)
next
  show "stdout_rejects w observation = Some e \<longrightarrow>
      fst (HumanAgent_call hself observation w) = Inl e"
    by (simp add: HumanAgent_call_rejected)
next
  let ?r = "fst (chat_completions_create lib (client gself) (GPTAgent_request gself observation)
                  (library_state w))"
  have "(\<forall>e. (case ?r of Inl e \<Rightarrow> Inl e | Inr response \<Rightarrow> first_choice_content response) = Inl e
            \<longrightarrow> issubclass_Exception (class_of e) \<and> (\<exists>message. str_of e = Inr message)) \<longleftrightarrow>
        (\<forall>e. ?r = Inl e \<longrightarrow> issubclass_Exception (class_of e) \<and> (\<exists>message. str_of e = Inr message))"
    by (cases ?r) (auto dest: first_choice_content_class)
  then show "(\<exists>s. fst (GPTAgent_call lib gself observation w) = Inr s) \<longleftrightarrow>
      (\<forall>e. ?r = Inl e \<longrightarrow> issubclass_Exception (class_of e) \<and> (\<exists>message. str_of e = Inr message))"
    by (simp add: GPTAgent_call_fst except_Exception_returns)
next
  let ?r = "fst (pipeline_call lib (pipeline lself) (HFLocalAgent_request observation)
                  (library_state w))"
  have "(\<forall>e. (case ?r of Inl e \<Rightarrow> Inl e | Inr response \<Rightarrow> first_generated_text response) = Inl e
            \<longrightarrow> issubclass_Exception (class_of e) \<and> (\<exists>message. str_of e = Inr message)) \<longleftrightarrow>
        (\<forall>e. ?r = Inl e \<longrightarrow> issubclass_Exception (class_of e) \<and> (\<exists>message. str_of e = Inr message))"
    by (cases ?r) (auto dest: first_generated_text_class)
  then show "(\<exists>s. fst (HFLocalAgent_call lib lself observation w) = Inr s) \<longleftrightarrow>
      (\<forall>e. ?r = Inl e \<longrightarrow> issubclass_Exception (class_of e) \<and> (\<exists>message. str_of e = Inr message))"
    by (simp add: HFLocalAgent_call_fst except_Exception_returns)
qed

text \<open>
  One line of input waiting; the mocked client raises a connection error and the mocked
  pipeline answers with an empty list.
\<close>

theorem call_returns_string_iff_witness:
  "stdout_takes (fresh_process Map.empty (lit ''hello'' @ [10])) (lit ''Your move'') \<and>
   stdin_read_error (fresh_process Map.empty (lit ''hello'' @ [10])) = None \<and>
   stdin (fresh_process Map.empty (lit ''hello'' @ [10])) \<noteq> [] \<and>
   (\<exists>s. fst (HumanAgent_call example_human_agent (lit ''Your move'')
               (fresh_process Map.empty (lit ''hello'' @ [10]))) = Inr s) \<and>
   (\<exists>s. fst (GPTAgent_call (mock_libraries (Inl connection_error) (\<lambda>r. Inr []))
               example_gpt_agent (lit ''Your move'')
               (fresh_process Map.empty (lit ''hello'' @ [10]))) = Inr s) \<and>
   (\<exists>s. fst (HFLocalAgent_call (mock_libraries (Inl connection_error) (\<lambda>r. Inr []))
               example_hf_agent (lit ''Your move'')
               (fresh_process Map.empty (lit ''hello'' @ [10]))) = Inr s)"
  using call_returns_string_iff
    [of example_human_agent "lit ''Your move''" "fresh_process Map.empty (lit ''hello'' @ [10])"
        surrogate_error
        "mock_libraries (Inl connection_error) (\<lambda>r. Inr [])" example_gpt_agent example_hf_agent]
    fresh_process_takes [of Map.empty "lit ''hello'' @ [10]" "lit ''Your move''"]
  by (simp add: mock_libraries_def connection_error_def fresh_process_def)

text \<open>
  C2 as stated covers the interactive variant too. With standard input at its end,
  \<^verbatim>\<open>input\<close> raises \<^verbatim>\<open>EOFError\<close>, and \<^verbatim>\<open>HumanAgent.__call__\<close> has no handler.
\<close>

theorem human_call_raises_EOFError:
  "stdout_takes (fresh_process Map.empty []) (lit ''Your move'') \<and>
   fst (HumanAgent_call example_human_agent (lit ''Your move'') (fresh_process Map.empty []))
     = Inl (PyExc EOFError (Inr (lit ''EOF when reading a line'')))"
proof -
  have "stdin_read_error (fresh_process Map.empty []) = None"
    and "stdin (fresh_process Map.empty []) = []"
    by (simp_all add: fresh_process_def)
  then show ?thesis
    by (simp add: HumanAgent_call_EOF fresh_process_takes)
qed

section \<open>Configuration failures (C3, C9)\<close>

text \<open>
  Claim C3. Constructing the remote-model variant when \<^verbatim>\<open>OPENAI_API_KEY\<close> is not set raises
  \<^verbatim>\<open>ValueError\<close> to the caller of the constructor. No request has been sent to the endpoint
  by then, and no agent object has come into being.
\<close>

theorem missing_credential_raises_at_construction:
  "environ w (lit ''OPENAI_API_KEY'') = None \<Longrightarrow>
   fst (GPTAgent_init mname w) =
     Inl (PyExc ValueError
       (Inr (lit ''OpenAI API key not found. Please set the OPENAI_API_KEY environment variable.''))) \<and>
   api_calls (snd (GPTAgent_init mname w)) = api_calls w \<and>
   heap (snd (GPTAgent_init mname w)) = heap w"
  by (simp add: GPTAgent_init_def os_getenv_def Let_def)

theorem missing_credential_raises_at_construction_witness:
  "environ (fresh_process Map.empty []) (lit ''OPENAI_API_KEY'') = None \<and>
   fst (GPTAgent_init (lit ''gpt-4o'') (fresh_process Map.empty [])) =
     Inl (PyExc ValueError
       (Inr (lit ''OpenAI API key not found. Please set the OPENAI_API_KEY environment variable.''))) \<and>
   api_calls (snd (GPTAgent_init (lit ''gpt-4o'') (fresh_process Map.empty []))) = [] \<and>
   heap (snd (GPTAgent_init (lit ''gpt-4o'') (fresh_process Map.empty []))) = Map.empty"
  using missing_credential_raises_at_construction
    [of "fresh_process Map.empty []" "lit ''gpt-4o''"]
  by (simp add: fresh_process_def)

text \<open>
  Claim C9. The constructor of the remote-model variant raises the \<^verbatim>\<open>ValueError\<close> exactly when
  the credential is falsy: when \<^verbatim>\<open>OPENAI_API_KEY\<close> is unset, and also when it is set to the
  empty string.
\<close>

theorem falsy_credential_rejected:
  "fst (GPTAgent_init mname w) =
     Inl (PyExc ValueError
       (Inr (lit ''OpenAI API key not found. Please set the OPENAI_API_KEY environment variable.'')))
   \<longleftrightarrow>
   environ w (lit ''OPENAI_API_KEY'') = None \<or> environ w (lit ''OPENAI_API_KEY'') = Some []"
  by (cases "environ w (lit ''OPENAI_API_KEY'')")
     (simp_all add: GPTAgent_init_def os_getenv_def Let_def alloc_def)

text \<open>
  The variable set to the empty string.
\<close>

theorem falsy_credential_rejected_witness:
  "environ (fresh_process [lit ''OPENAI_API_KEY'' \<mapsto> []] []) (lit ''OPENAI_API_KEY'') = Some [] \<and>
   fst (GPTAgent_init (lit ''gpt-4o'') (fresh_process [lit ''OPENAI_API_KEY'' \<mapsto> []] [])) =
     Inl (PyExc ValueError
       (Inr (lit ''OpenAI API key not found. Please set the OPENAI_API_KEY environment variable.'')))"
  using falsy_credential_rejected
    [of "lit ''gpt-4o''" "fresh_process [lit ''OPENAI_API_KEY'' \<mapsto> []] []"]
  by (simp add: fresh_process_def)

section \<open>The interactive variant (C4)\<close>




section \<open>Successful calls (C5)\<close>

text \<open>
  Claim C5. When the client answers with a completion whose first choice has a text, the
  remote-model variant returns that text trimmed; it has asked for one candidate. When the
  pipeline answers with a list whose first dictionary has a \<^verbatim>\<open>generated_text\<close>, the
  local-model variant returns that text trimmed; it has asked for one sequence, with
  \<open>return_full_text\<close> false. When the pipeline answers as the text-generation pipeline of
  the library does, what is returned is the trimmed continuation, without the prompt.
\<close>

theorem successful_call_returns_trimmed_text:
  "(fst (chat_completions_create lib (client gself) (GPTAgent_request gself observation)
           (library_state w)) = Inr response \<and>
      choices response = Some content # others \<longrightarrow>
      fst (GPTAgent_call lib gself observation w) = Inr (py_strip content) \<and>
      trimmed_of content (py_strip content) \<and>
      req_n (GPTAgent_request gself observation) = 1) \<and>
   (fst (pipeline_call lib (pipeline lself) (HFLocalAgent_request observation)
           (library_state w)) = Inr (d # ds) \<and>
      map_of d (lit ''generated_text'') = Some gtext \<longrightarrow>
      fst (HFLocalAgent_call lib lself observation w) = Inr (py_strip gtext) \<and>
      trimmed_of gtext (py_strip gtext) \<and>
      num_return_sequences (HFLocalAgent_request observation) = 1 \<and>
      return_full_text (HFLocalAgent_request observation) = False) \<and>
   (fst (pipeline_call lib (pipeline lself) (HFLocalAgent_request observation)
           (library_state w)) =
        text_generation_pipeline sample (HFLocalAgent_request observation) \<and>
      sample observation = continuation # cs \<longrightarrow>
      fst (HFLocalAgent_call lib lself observation w) = Inr (py_strip continuation))"
  by (simp add: GPTAgent_call_fst HFLocalAgent_call_fst except_Exception_value
      first_choice_content_def first_generated_text_def trimmed_of_py_strip
      GPTAgent_request_def HFLocalAgent_request_def text_generation_pipeline_def)

theorem successful_call_returns_trimmed_text_witness:
  "fst (chat_completions_create example_libraries (client example_gpt_agent)
     (GPTAgent_request example_gpt_agent (lit ''Your move'')) (library_state example_process)) =
     Inr \<lparr>choices = [Some (lit ''  go north '' @ [10])]\<rparr> \<and>
   fst (GPTAgent_call example_libraries example_gpt_agent (lit ''Your move'') example_process) =
     Inr (lit ''go north'') \<and>
   fst (pipeline_call example_libraries (pipeline example_hf_agent)
     (HFLocalAgent_request (lit ''Your move'')) (library_state example_process)) =
     Inr [[(lit ''generated_text'', lit '' go north'' @ [10])]] \<and>
   fst (HFLocalAgent_call example_libraries example_hf_agent (lit ''Your move'') example_process) =
     Inr (lit ''go north'')"
proof -
  have strip1: "py_strip (lit ''  go north '' @ [10]) = lit ''go north''"
    by (simp add: py_strip_def py_isspace_def lit_def)
  have strip2: "py_strip (lit '' go north'' @ [10]) = lit ''go north''"
    by (simp add: py_strip_def py_isspace_def lit_def)
  have chat: "fst (chat_completions_create example_libraries (client example_gpt_agent)
      (GPTAgent_request example_gpt_agent (lit ''Your move'')) (library_state example_process)) =
      Inr \<lparr>choices = [Some (lit ''  go north '' @ [10])]\<rparr>"
    by (simp add: example_libraries_def mock_libraries_def)
  have gen: "fst (pipeline_call example_libraries (pipeline example_hf_agent)
      (HFLocalAgent_request (lit ''Your move'')) (library_state example_process)) =
      Inr [[(lit ''generated_text'', lit '' go north'' @ [10])]]"
    by (simp add: example_libraries_def mock_libraries_def text_generation_pipeline_def
        HFLocalAgent_request_def)
  have gen': "fst (pipeline_call example_libraries (pipeline example_hf_agent)
      (HFLocalAgent_request (lit ''Your move'')) (library_state example_process)) =
      text_generation_pipeline (\<lambda>p. [lit '' go north'' @ [10]])
        (HFLocalAgent_request (lit ''Your move''))"
    by (simp add: example_libraries_def mock_libraries_def)
  show ?thesis
    using chat gen gen' strip1 strip2
      successful_call_returns_trimmed_text [where lib = example_libraries and gself = example_gpt_agent
           and observation = "lit ''Your move''"
           and response = "\<lparr>choices = [Some (lit ''  go north '' @ [10])]\<rparr>"
           and content = "lit ''  go north '' @ [10]" and others = "[]"
           and w = example_process and lself = example_hf_agent
           and d = "[(lit ''generated_text'', lit '' go north'' @ [10])]" and ds = "[]"
           and gtext = "lit '' go north'' @ [10]"
           and sample = "\<lambda>p. [lit '' go north'' @ [10]]"
           and continuation = "lit '' go north'' @ [10]" and cs = "[]"]
    by simp
qed

section \<open>Calls store nothing in an instance (C6)\<close>

text \<open>
  Claim C6, as the code has it. A call of an agent of any class, with any observation,
  leaves every attribute of every agent object as it was; it creates no object, and it
  leaves the environment and the module attribute \<^verbatim>\<open>openai.api_key\<close> as they were. The
  stateful steps are the constructions, and not only that of the local variant. The
  constructor of the remote-model variant assigns \<^verbatim>\<open>openai.api_key\<close> from the environment,
  whether it then succeeds or raises, and a successful one stores a client in the new
  object. A successful construction of the local variant stores the tokenizer, the model
  and the pipeline that the library gave.
\<close>

theorem call_leaves_attributes_unchanged:
  "(Agent_call lib a observation w = Some (r, w') \<longrightarrow>
      heap w' = heap w \<and> next_addr w' = next_addr w \<and> environ w' = environ w \<and>
      openai_api_key w' = openai_api_key w) \<and>
   openai_api_key (snd (GPTAgent_init mname v)) = environ v (lit ''OPENAI_API_KEY'') \<and>
   (GPTAgent_init mname v = (Inr b, v') \<longrightarrow>
      heap v' b =
        Some (GPT \<lparr>model_name = mname, agent_identifier = mname,
                    client = \<lparr>base_url = lit ''https://openrouter.ai/api/v1''\<rparr>\<rparr>)) \<and>
   (HFLocalAgent_init lib mname q v = (Inr b, v') \<longrightarrow>
      (\<exists>tok mdl p.
         AutoTokenizer_from_pretrained lib mname = Inr tok \<and>
         AutoModelForCausalLM_from_pretrained lib mname q = Inr mdl \<and>
         pipeline_new lib (lit ''text-generation'') mdl tok = Inr p \<and>
         heap v' b =
           Some (HFLocal \<lparr>model_name = mname, agent_identifier = mname, quantize = q,
                          tokenizer = tok, model = mdl, pipeline = p\<rparr>)))"
proof (intro conjI impI)
  assume "Agent_call lib a observation w = Some (r, w')"
  then show "heap w' = heap w" "next_addr w' = next_addr w" "environ w' = environ w"
    "openai_api_key w' = openai_api_key w"
    by (simp_all add: Agent_call_heap Agent_call_frame)
next
  show "openai_api_key (snd (GPTAgent_init mname v)) = environ v (lit ''OPENAI_API_KEY'')"
    by (rule GPTAgent_init_api_key)
next
  assume "GPTAgent_init mname v = (Inr b, v')"
  from GPTAgent_init_ok [OF this]
  show "heap v' b =
        Some (GPT \<lparr>model_name = mname, agent_identifier = mname,
                    client = \<lparr>base_url = lit ''https://openrouter.ai/api/v1''\<rparr>\<rparr>)"
    by simp
next
  assume "HFLocalAgent_init lib mname q v = (Inr b, v')"
  from HFLocalAgent_init_ok [OF this]
  show "\<exists>tok mdl p.
         AutoTokenizer_from_pretrained lib mname = Inr tok \<and>
         AutoModelForCausalLM_from_pretrained lib mname q = Inr mdl \<and>
         pipeline_new lib (lit ''text-generation'') mdl tok = Inr p \<and>
         heap v' b =
           Some (HFLocal \<lparr>model_name = mname, agent_identifier = mname, quantize = q,
                          tokenizer = tok, model = mdl, pipeline = p\<rparr>)"
    by auto
qed

text \<open>
  One call of each of the three agents of the example process, and the construction of a
  remote and of a local agent in a fresh process.
\<close>

theorem call_leaves_attributes_unchanged_witness:
  "Agent_call example_libraries 0 (lit ''Your move'') example_process =
     Some (HumanAgent_call example_human_agent (lit ''Your move'') example_process) \<and>
   heap (snd (HumanAgent_call example_human_agent (lit ''Your move'') example_process)) =
     heap example_process \<and>
   Agent_call example_libraries (Suc 0) (lit ''Your move'') example_process =
     Some (GPTAgent_call example_libraries example_gpt_agent (lit ''Your move'') example_process) \<and>
   heap (snd (GPTAgent_call example_libraries example_gpt_agent (lit ''Your move'')
     example_process)) = heap example_process \<and>
   Agent_call example_libraries (Suc (Suc 0)) (lit ''Your move'') example_process =
     Some (HFLocalAgent_call example_libraries example_hf_agent (lit ''Your move'')
       example_process) \<and>
   heap (snd (HFLocalAgent_call example_libraries example_hf_agent (lit ''Your move'')
     example_process)) = heap example_process \<and>
   fst (GPTAgent_init (lit ''gpt-4o'')
     (fresh_process [lit ''OPENAI_API_KEY'' \<mapsto> lit ''sk-test''] [])) = Inr 0 \<and>
   heap (snd (GPTAgent_init (lit ''gpt-4o'')
     (fresh_process [lit ''OPENAI_API_KEY'' \<mapsto> lit ''sk-test''] []))) 0 =
     Some (GPT example_gpt_agent) \<and>
   fst (HFLocalAgent_init example_libraries (lit ''gpt2'') False (fresh_process Map.empty [])) =
     Inr 0 \<and>
   heap (snd (HFLocalAgent_init example_libraries (lit ''gpt2'') False
     (fresh_process Map.empty []))) 0 = Some (HFLocal example_hf_agent)"
proof -
  let ?obs = "lit ''Your move''"
  let ?k = "fresh_process [lit ''OPENAI_API_KEY'' \<mapsto> lit ''sk-test''] []"
  let ?p = "fresh_process Map.empty []"
  have c0: "Agent_call example_libraries 0 ?obs example_process =
      Some (HumanAgent_call example_human_agent ?obs example_process)"
    by (simp add: Agent_call_def example_process_heap)
  have c1: "Agent_call example_libraries (Suc 0) ?obs example_process =
      Some (GPTAgent_call example_libraries example_gpt_agent ?obs example_process)"
    by (simp add: Agent_call_def example_process_heap)
  have c2: "Agent_call example_libraries (Suc (Suc 0)) ?obs example_process =
      Some (HFLocalAgent_call example_libraries example_hf_agent ?obs example_process)"
    by (simp add: Agent_call_def example_process_heap)
  have g: "GPTAgent_init (lit ''gpt-4o'') ?k = (Inr 0, snd (GPTAgent_init (lit ''gpt-4o'') ?k))"
    by (simp add: GPTAgent_init_def alloc_def os_getenv_def Let_def fresh_process_def lit_eq_Nil)
  have l: "HFLocalAgent_init example_libraries (lit ''gpt2'') False ?p =
      (Inr 0, snd (HFLocalAgent_init example_libraries (lit ''gpt2'') False ?p))"
    by (simp add: HFLocalAgent_init_def alloc_def Let_def fresh_process_def
        example_libraries_def mock_libraries_def)
  have libs: "AutoTokenizer_from_pretrained example_libraries (lit ''gpt2'') = Inr 1"
    "AutoModelForCausalLM_from_pretrained example_libraries (lit ''gpt2'') False = Inr 2"
    "pipeline_new example_libraries (lit ''text-generation'') 2 1 = Inr 3"
    by (simp_all add: example_libraries_def mock_libraries_def)
  have a0: "heap (snd (HumanAgent_call example_human_agent ?obs example_process)) =
      heap example_process"
    using c0 call_leaves_attributes_unchanged [of example_libraries 0 ?obs example_process
        "fst (HumanAgent_call example_human_agent ?obs example_process)"
        "snd (HumanAgent_call example_human_agent ?obs example_process)"]
    by simp
  have a1: "heap (snd (GPTAgent_call example_libraries example_gpt_agent ?obs example_process)) =
      heap example_process"
    using c1 call_leaves_attributes_unchanged [of example_libraries "Suc 0" ?obs example_process
        "fst (GPTAgent_call example_libraries example_gpt_agent ?obs example_process)"
        "snd (GPTAgent_call example_libraries example_gpt_agent ?obs example_process)"]
    by simp
  have a2: "heap (snd (HFLocalAgent_call example_libraries example_hf_agent ?obs example_process)) =
      heap example_process"
    using c2 call_leaves_attributes_unchanged [of example_libraries "Suc (Suc 0)" ?obs
        example_process
        "fst (HFLocalAgent_call example_libraries example_hf_agent ?obs example_process)"
        "snd (HFLocalAgent_call example_libraries example_hf_agent ?obs example_process)"]
    by simp
  have b1: "heap (snd (GPTAgent_init (lit ''gpt-4o'') ?k)) 0 = Some (GPT example_gpt_agent)"
    using g call_leaves_attributes_unchanged [where mname = "lit ''gpt-4o''" and v = ?k
        and b = 0 and v' = "snd (GPTAgent_init (lit ''gpt-4o'') ?k)"]
    by (simp add: example_gpt_agent_def)
  have b2: "heap (snd (HFLocalAgent_init example_libraries (lit ''gpt2'') False ?p)) 0 =
      Some (HFLocal example_hf_agent)"
    using l libs call_leaves_attributes_unchanged [where lib = example_libraries
        and mname = "lit ''gpt2''" and q = False and v = ?p and b = 0
        and v' = "snd (HFLocalAgent_init example_libraries (lit ''gpt2'') False ?p)"]
    by (auto simp add: example_hf_agent_def)
  have g': "fst (GPTAgent_init (lit ''gpt-4o'') ?k) = Inr 0"
    using g by (metis fst_conv)
  have l': "fst (HFLocalAgent_init example_libraries (lit ''gpt2'') False ?p) = Inr 0"
    using l by (metis fst_conv)
  show ?thesis
    using c0 c1 c2 a0 a1 a2 b1 b2 g' l' by simp
qed

text \<open>
  C6 as stated says that the only stateful step is the acquisition of the local variant at
  construction. Constructing a remote agent changes \<^verbatim>\<open>openai.api_key\<close> from \<^verbatim>\<open>None\<close> to the
  credential of the environment, and the new object holds a client.
\<close>

theorem remote_construction_is_stateful:
  "openai_api_key (fresh_process [lit ''OPENAI_API_KEY'' \<mapsto> lit ''sk-test''] []) = None \<and>
   openai_api_key (snd (GPTAgent_init (lit ''gpt-4o'')
     (fresh_process [lit ''OPENAI_API_KEY'' \<mapsto> lit ''sk-test''] []))) = Some (lit ''sk-test'') \<and>
   heap (fresh_process [lit ''OPENAI_API_KEY'' \<mapsto> lit ''sk-test''] []) 0 = None \<and>
   heap (snd (GPTAgent_init (lit ''gpt-4o'')
     (fresh_process [lit ''OPENAI_API_KEY'' \<mapsto> lit ''sk-test''] []))) 0 =
     Some (GPT \<lparr>model_name = lit ''gpt-4o'', agent_identifier = lit ''gpt-4o'',
                 client = \<lparr>base_url = lit ''https://openrouter.ai/api/v1''\<rparr>\<rparr>)"
  by (simp add: GPTAgent_init_def alloc_def os_getenv_def Let_def fresh_process_def lit_eq_Nil
      Agent_init_def)

section \<open>The identifier (C7, C10)\<close>

text \<open>
  Claim C7, as the code has it. The constructors do not check the identifier. When every
  object of a process stores a non-empty identifier, constructing an agent of any class
  with a non-empty identifier keeps it so, whether the construction succeeds or raises, and
  so does every call.
\<close>

theorem nonempty_identifier_kept:
  "(identifiers_nonempty w \<and> mname \<noteq> [] \<longrightarrow>
      identifiers_nonempty (snd (HumanAgent_init mname w)) \<and>
      identifiers_nonempty (snd (GPTAgent_init mname w)) \<and>
      identifiers_nonempty (snd (HFLocalAgent_init lib mname q w))) \<and>
   (identifiers_nonempty w \<and> Agent_call lib a observation w = Some (r, w') \<longrightarrow>
      identifiers_nonempty w')"
proof (intro conjI impI; elim conjE)
  assume inv: "identifiers_nonempty w" and ne: "mname \<noteq> []"
  show "identifiers_nonempty (snd (HumanAgent_init mname w))"
    by (rule identifiers_nonempty_alloc [OF inv, where obj = "Human (Agent_init mname)"
          and a = "next_addr w"])
       (simp_all add: ne Agent_init_def HumanAgent_init_eq)
  show "identifiers_nonempty (snd (GPTAgent_init mname w))"
    using GPTAgent_init_heap [of mname w] inv ne
    by (auto intro: identifiers_nonempty_heap
        elim!: identifiers_nonempty_alloc [OF inv, rotated])
  show "identifiers_nonempty (snd (HFLocalAgent_init lib mname q w))"
    using HFLocalAgent_init_heap [of lib mname q w] inv ne
    by (auto intro: identifiers_nonempty_heap
        elim!: identifiers_nonempty_alloc [OF inv, rotated])
next
  assume "identifiers_nonempty w" and "Agent_call lib a observation w = Some (r, w')"
  then show "identifiers_nonempty w'"
    by (auto intro: identifiers_nonempty_heap dest: Agent_call_heap)
qed

theorem nonempty_identifier_kept_witness:
  "identifiers_nonempty example_process \<and> lit ''claude'' \<noteq> [] \<and>
   identifiers_nonempty (snd (HumanAgent_init (lit ''claude'') example_process)) \<and>
   identifiers_nonempty (snd (GPTAgent_init (lit ''claude'') example_process)) \<and>
   identifiers_nonempty (snd (HFLocalAgent_init example_libraries (lit ''claude'') False
     example_process)) \<and>
   Agent_call example_libraries 0 (lit ''Your move'') example_process =
     Some (HumanAgent_call example_human_agent (lit ''Your move'') example_process) \<and>
   identifiers_nonempty (snd (HumanAgent_call example_human_agent (lit ''Your move'')
     example_process))"
proof -
  let ?obs = "lit ''Your move''"
  have ne: "lit ''claude'' \<noteq> []"
    by (simp add: lit_eq_Nil)
  have c0: "Agent_call example_libraries 0 ?obs example_process =
      Some (fst (HumanAgent_call example_human_agent ?obs example_process),
            snd (HumanAgent_call example_human_agent ?obs example_process))"
    by (simp add: Agent_call_def example_process_heap)
  show ?thesis
    using ne c0 example_process_invariant
      nonempty_identifier_kept [of example_process "lit ''claude''" example_libraries False 0 ?obs
        "fst (HumanAgent_call example_human_agent ?obs example_process)"
        "snd (HumanAgent_call example_human_agent ?obs example_process)"]
    by simp
qed

text \<open>
  C7 as stated says that every constructed instance has a non-empty identifier. The
  interactive and the remote-model variant are constructed with the empty identifier
  without complaint, and store it.
\<close>

theorem empty_identifier_accepted:
  "fst (HumanAgent_init [] (fresh_process Map.empty [])) = Inr 0 \<and>
   heap (snd (HumanAgent_init [] (fresh_process Map.empty []))) 0 =
     Some (Human \<lparr>model_name = [], agent_identifier = []\<rparr>) \<and>
   fst (GPTAgent_init [] (fresh_process [lit ''OPENAI_API_KEY'' \<mapsto> lit ''sk-test''] [])) =
     Inr 0 \<and>
   heap (snd (GPTAgent_init [] (fresh_process [lit ''OPENAI_API_KEY'' \<mapsto> lit ''sk-test''] []))) 0 =
     Some (GPT \<lparr>model_name = [], agent_identifier = [],
                 client = \<lparr>base_url = lit ''https://openrouter.ai/api/v1''\<rparr>\<rparr>) \<and>
   \<not> identifiers_nonempty (snd (HumanAgent_init [] (fresh_process Map.empty [])))"
  by (simp add: HumanAgent_init_eq GPTAgent_init_def alloc_def os_getenv_def Let_def
      Agent_init_def fresh_process_def identifiers_nonempty_def lit_eq_Nil)

text \<open>
  Claim C10. \<^verbatim>\<open>Agent.__init__\<close> stores the identifier it is given in \<open>model_name\<close> and in
  \<open>agent_identifier\<close>. So the object that a successful construction of any of the three
  classes gives has both attributes equal to the identifier given.
\<close>

theorem construction_stores_identifier_twice:
  "model_name (Agent_init mname) = mname \<and> agent_identifier (Agent_init mname) = mname \<and>
   (HumanAgent_init mname w = (Inr a, w') \<longrightarrow>
      (\<exists>s. heap w' a = Some (Human s) \<and> model_name s = mname \<and> agent_identifier s = mname)) \<and>
   (GPTAgent_init mname w = (Inr a, w') \<longrightarrow>
      (\<exists>s. heap w' a = Some (GPT s) \<and> model_name s = mname \<and> agent_identifier s = mname)) \<and>
   (HFLocalAgent_init lib mname q w = (Inr a, w') \<longrightarrow>
      (\<exists>s. heap w' a = Some (HFLocal s) \<and> model_name s = mname \<and> agent_identifier s = mname))"
proof (intro conjI impI)
  show "model_name (Agent_init mname) = mname" "agent_identifier (Agent_init mname) = mname"
    by (simp_all add: Agent_init_def)
next
  assume "HumanAgent_init mname w = (Inr a, w')"
  then show "\<exists>s. heap w' a = Some (Human s) \<and> model_name s = mname \<and> agent_identifier s = mname"
    by (auto simp: HumanAgent_init_eq Agent_init_def)
next
  assume "GPTAgent_init mname w = (Inr a, w')"
  from GPTAgent_init_ok [OF this]
  show "\<exists>s. heap w' a = Some (GPT s) \<and> model_name s = mname \<and> agent_identifier s = mname"
    by simp
next
  assume "HFLocalAgent_init lib mname q w = (Inr a, w')"
  from HFLocalAgent_init_ok [OF this]
  show "\<exists>s. heap w' a = Some (HFLocal s) \<and> model_name s = mname \<and> agent_identifier s = mname"
    by auto
qed

theorem construction_stores_identifier_twice_witness:
  "fst (HumanAgent_init (lit ''human'') (fresh_process Map.empty [])) = Inr 0 \<and>
   (\<exists>s. heap (snd (HumanAgent_init (lit ''human'') (fresh_process Map.empty []))) 0 =
          Some (Human s) \<and>
        model_name s = lit ''human'' \<and> agent_identifier s = lit ''human'') \<and>
   fst (GPTAgent_init (lit ''gpt-4o'')
          (fresh_process [lit ''OPENAI_API_KEY'' \<mapsto> lit ''sk-test''] [])) = Inr 0 \<and>
   (\<exists>s. heap (snd (GPTAgent_init (lit ''gpt-4o'')
          (fresh_process [lit ''OPENAI_API_KEY'' \<mapsto> lit ''sk-test''] []))) 0 = Some (GPT s) \<and>
        model_name s = lit ''gpt-4o'' \<and> agent_identifier s = lit ''gpt-4o'') \<and>
   fst (HFLocalAgent_init example_libraries (lit ''gpt2'') True (fresh_process Map.empty [])) =
     Inr 0 \<and>
   (\<exists>s. heap (snd (HFLocalAgent_init example_libraries (lit ''gpt2'') True
          (fresh_process Map.empty []))) 0 = Some (HFLocal s) \<and>
        model_name s = lit ''gpt2'' \<and> agent_identifier s = lit ''gpt2'')"
proof -
  let ?p = "fresh_process Map.empty []"
  let ?k = "fresh_process [lit ''OPENAI_API_KEY'' \<mapsto> lit ''sk-test''] []"
  have h: "fst (HumanAgent_init (lit ''human'') ?p) = Inr 0"
    by (simp add: HumanAgent_init_eq fresh_process_def)
  have g: "fst (GPTAgent_init (lit ''gpt-4o'') ?k) = Inr 0"
    by (simp add: GPTAgent_init_def alloc_def os_getenv_def Let_def fresh_process_def lit_eq_Nil)
  have l: "fst (HFLocalAgent_init example_libraries (lit ''gpt2'') True ?p) = Inr 0"
    by (simp add: HFLocalAgent_init_def alloc_def Let_def fresh_process_def
        example_libraries_def mock_libraries_def)
  have h': "HumanAgent_init (lit ''human'') ?p =
      (Inr 0, snd (HumanAgent_init (lit ''human'') ?p))"
    using h by (simp add: prod_eq_iff)
  have g': "GPTAgent_init (lit ''gpt-4o'') ?k = (Inr 0, snd (GPTAgent_init (lit ''gpt-4o'') ?k))"
    using g by (simp add: prod_eq_iff)
  have l': "HFLocalAgent_init example_libraries (lit ''gpt2'') True ?p =
      (Inr 0, snd (HFLocalAgent_init example_libraries (lit ''gpt2'') True ?p))"
    using l by (simp add: prod_eq_iff)
  show ?thesis
    using h g l h' g' l'
      construction_stores_identifier_twice [of "lit ''human''" ?p 0
        "snd (HumanAgent_init (lit ''human'') ?p)"]
      construction_stores_identifier_twice [of "lit ''gpt-4o''" ?k 0
        "snd (GPTAgent_init (lit ''gpt-4o'') ?k)"]
      construction_stores_identifier_twice [of "lit ''gpt2''" ?p 0
        "snd (HFLocalAgent_init example_libraries (lit ''gpt2'') True ?p)" example_libraries True]
    by blast
qed

section \<open>Other instances (C8)\<close>

text \<open>
  Claim C8, as the code has it. In a process whose object identities are fresh, constructing
  an agent of any class leaves every object that exists with the attributes it had, and
  identities stay fresh. A call of any agent leaves the attributes of every object as they
  were, and keeps identities fresh. State outside the objects is shared by all instances.
  Every construction of the remote-model variant assigns the module attribute
  \<^verbatim>\<open>openai.api_key\<close> from the environment. A call of the interactive variant does not depend
  on the instance called but on the standard streams of the process, and a call that
  returns a line has taken it away from standard input.
\<close>

theorem other_instances_keep_their_attributes:
  "(identities_fresh w \<and> heap w b = Some obj \<longrightarrow>
      heap (snd (HumanAgent_init mname w)) b = Some obj \<and>
      heap (snd (GPTAgent_init mname w)) b = Some obj \<and>
      heap (snd (HFLocalAgent_init lib mname q w)) b = Some obj) \<and>
   (identities_fresh w \<longrightarrow>
      identities_fresh (snd (HumanAgent_init mname w)) \<and>
      identities_fresh (snd (GPTAgent_init mname w)) \<and>
      identities_fresh (snd (HFLocalAgent_init lib mname q w))) \<and>
   (Agent_call lib a observation w = Some (r, w') \<longrightarrow>
      heap w' b = heap w b \<and> (identities_fresh w \<longrightarrow> identities_fresh w')) \<and>
   openai_api_key (snd (GPTAgent_init mname w)) = environ w (lit ''OPENAI_API_KEY'') \<and>
   HumanAgent_call self observation w = HumanAgent_call self' observation w \<and>
   (fst (HumanAgent_call self observation w) = Inr line \<longrightarrow>
      length (stdin (snd (HumanAgent_call self observation w))) < length (stdin w))"
proof (intro conjI impI)
  assume "identities_fresh w \<and> heap w b = Some obj"
  then have b: "b \<noteq> next_addr w" and obj: "heap w b = Some obj"
    by (auto dest: identities_fresh_existing)
  show "heap (snd (HumanAgent_init mname w)) b = Some obj"
    using b obj by (simp add: HumanAgent_init_heap_other)
  show "heap (snd (GPTAgent_init mname w)) b = Some obj"
    using b obj by (simp add: GPTAgent_init_heap_other)
  show "heap (snd (HFLocalAgent_init lib mname q w)) b = Some obj"
    using b obj by (simp add: HFLocalAgent_init_heap_other)
next
  assume "identities_fresh w"
  then show "identities_fresh (snd (HumanAgent_init mname w))"
    "identities_fresh (snd (GPTAgent_init mname w))"
    "identities_fresh (snd (HFLocalAgent_init lib mname q w))"
    by (simp_all add: HumanAgent_init_fresh GPTAgent_init_fresh HFLocalAgent_init_fresh)
next
  assume "Agent_call lib a observation w = Some (r, w')"
  then show "heap w' b = heap w b"
    by (simp add: Agent_call_heap)
next
  assume "Agent_call lib a observation w = Some (r, w')" and "identities_fresh w"
  then show "identities_fresh w'"
    by (rule Agent_call_fresh)
next
  show "openai_api_key (snd (GPTAgent_init mname w)) = environ w (lit ''OPENAI_API_KEY'')"
    by (rule GPTAgent_init_api_key)
next
  show "HumanAgent_call self observation w = HumanAgent_call self' observation w"
    by (rule HumanAgent_call_self)
next
  assume "fst (HumanAgent_call self observation w) = Inr line"
  then show "length (stdin (snd (HumanAgent_call self observation w))) < length (stdin w)"
    by (rule HumanAgent_call_consumes)
qed

text \<open>
  The remote agent of the example process keeps its attributes while other agents are
  constructed and called.
\<close>

theorem other_instances_keep_their_attributes_witness:
  "identities_fresh example_process \<and>
   heap example_process (Suc 0) = Some (GPT example_gpt_agent) \<and>
   heap (snd (HumanAgent_init (lit ''human'') example_process)) (Suc 0) =
     Some (GPT example_gpt_agent) \<and>
   heap (snd (GPTAgent_init (lit ''human'') example_process)) (Suc 0) =
     Some (GPT example_gpt_agent) \<and>
   heap (snd (HFLocalAgent_init example_libraries (lit ''human'') True example_process)) (Suc 0) =
     Some (GPT example_gpt_agent) \<and>
   identities_fresh (snd (HumanAgent_init (lit ''human'') example_process)) \<and>
   Agent_call example_libraries 0 (lit ''Your move'') example_process =
     Some (HumanAgent_call example_human_agent (lit ''Your move'') example_process) \<and>
   heap (snd (HumanAgent_call example_human_agent (lit ''Your move'') example_process)) (Suc 0) =
     Some (GPT example_gpt_agent) \<and>
   identities_fresh (snd (HumanAgent_call example_human_agent (lit ''Your move'')
     example_process)) \<and>
   fst (HumanAgent_call example_human_agent (lit ''Your move'') example_process) =
     Inr (lit ''hello'') \<and>
   length (stdin (snd (HumanAgent_call example_human_agent (lit ''Your move'') example_process)))
     < length (stdin example_process)"
proof -
  let ?obs = "lit ''Your move''"
  have c0: "Agent_call example_libraries 0 ?obs example_process =
      Some (fst (HumanAgent_call example_human_agent ?obs example_process),
            snd (HumanAgent_call example_human_agent ?obs example_process))"
    by (simp add: Agent_call_def example_process_heap)
  have g: "heap example_process (Suc 0) = Some (GPT example_gpt_agent)"
    by (simp add: example_process_heap)
  have h: "10 \<notin> set (lit ''hello'')"
    by (simp add: lit_def)
  have r: "fst (HumanAgent_call example_human_agent ?obs example_process) = Inr (lit ''hello'')"
    using HumanAgent_call_line [of example_process ?obs "lit ''hello''" "[]" example_human_agent]
      h example_process_streams
    by simp
  show ?thesis
    using c0 g r example_process_fresh
      other_instances_keep_their_attributes [of example_process "Suc 0" "GPT example_gpt_agent"
        "lit ''human''" example_libraries True 0 ?obs
        "fst (HumanAgent_call example_human_agent ?obs example_process)"
        "snd (HumanAgent_call example_human_agent ?obs example_process)"
        example_human_agent example_human_agent "lit ''hello''"]
    by (simp add: prod_eq_iff)
qed

text \<open>
  C8 as stated says that no construction or call writes state shared between instances.
  The constructor of the remote-model variant assigns the module attribute
  \<^verbatim>\<open>openai.api_key\<close>, which belongs to the process and not to the instance. And two human
  agents read the same standard input: the second agent returns \<^verbatim>\<open>north\<close> when called
  first, and \<^verbatim>\<open>south\<close> when the first agent has been called before it.
\<close>

theorem instances_share_process_state:
  "openai_api_key (fresh_process [lit ''OPENAI_API_KEY'' \<mapsto> lit ''sk-test''] []) = None \<and>
   openai_api_key (snd (GPTAgent_init (lit ''gpt-4o'')
     (fresh_process [lit ''OPENAI_API_KEY'' \<mapsto> lit ''sk-test''] []))) = Some (lit ''sk-test'') \<and>
   map_option fst (Agent_call example_libraries (Suc 0) (lit ''Your move'') two_humans) =
     Some (Inr (lit ''north'')) \<and>
   map_option fst (Agent_call example_libraries (Suc 0) (lit ''Your move'')
     (snd (the (Agent_call example_libraries 0 (lit ''Your move'') two_humans)))) =
     Some (Inr (lit ''south''))"
proof -
  let ?obs = "lit ''Your move''"
  let ?after = "two_humans\<lparr>stdout := stdout two_humans @ ?obs @ [10] @
                     lit ''Please enter the action: '',
                   stdin := lit ''south'' @ [10]\<rparr>"
  have k: "openai_api_key (snd (GPTAgent_init (lit ''gpt-4o'')
     (fresh_process [lit ''OPENAI_API_KEY'' \<mapsto> lit ''sk-test''] []))) = Some (lit ''sk-test'')"
    by (simp add: GPTAgent_init_api_key) (simp add: fresh_process_def)
  have s0: "stdout_takes two_humans ?obs" "stdin_read_error two_humans = None"
    "stdin two_humans = lit ''north'' @ 10 # lit ''south'' @ [10]"
    "\<not> prompt_on_stderr two_humans"
    by (simp_all add: two_humans_eq stdout_takes_def fresh_process_def)
  have first: "HumanAgent_call self ?obs two_humans = (Inr (lit ''north''), ?after)" for self
    using HumanAgent_call_line
      [of two_humans ?obs "lit ''north''" "lit ''south'' @ [10]" self] s0
    by (simp add: lit_no_newline_north)
  have s1: "stdout_takes ?after ?obs" "stdin_read_error ?after = None"
    "stdin ?after = lit ''south'' @ 10 # []"
    by (simp_all add: two_humans_eq stdout_takes_def fresh_process_def)
  have second: "fst (HumanAgent_call self ?obs ?after) = Inr (lit ''south'')" for self
    using HumanAgent_call_line [of ?after ?obs "lit ''south''" "[]" self] s1
    by (simp add: lit_no_newline_south)
  have h0: "heap two_humans 0 = Some (Human (Agent_init (lit ''alice'')))"
    and h1: "heap two_humans (Suc 0) = Some (Human (Agent_init (lit ''bob'')))"
    by (simp_all add: two_humans_eq)
  have call0: "Agent_call example_libraries 0 ?obs two_humans = Some (Inr (lit ''north''), ?after)"
    by (simp add: Agent_call_def h0 first)
  have call1: "map_option fst (Agent_call example_libraries (Suc 0) ?obs two_humans) =
      Some (Inr (lit ''north''))"
    by (simp add: Agent_call_def h1 first)
  have call2: "map_option fst (Agent_call example_libraries (Suc 0) ?obs ?after) =
      Some (Inr (lit ''south''))"
  proof -
    have "Agent_call example_libraries (Suc 0) ?obs ?after =
        Some (HumanAgent_call (Agent_init (lit ''bob'')) ?obs ?after)"
      by (simp add: Agent_call_def h1)
    then show ?thesis
      by (simp only: option.map_sel option.simps second)
  qed
  have fresh_key: "openai_api_key (fresh_process [lit ''OPENAI_API_KEY'' \<mapsto> lit ''sk-test''] []) =
      None"
    by (simp add: fresh_process_def)
  show ?thesis
    using k call0 call1 call2 fresh_key by simp
qed

end
